theory Spec2Isabelle
  imports Main "HOL-Library.Option_ord" "HOL-Library.Multiset"
begin

section \<open>Errors and identifiers\<close>

text \<open>
  Every exception a handler of \<^verbatim>\<open>main.py\<close> can end with is a value of \<open>error\<close>:
  the \<^verbatim>\<open>HTTPException\<close>s the handlers raise themselves (status code and detail), and
  the exceptions of the libraries they call (\<^verbatim>\<open>bson\<close>, \<^verbatim>\<open>passlib\<close>, \<^verbatim>\<open>jwt\<close>) and of
  Python itself.
\<close>

datatype error =
    HTTPException nat string
  | InvalidId
  | UnknownHashError
  | ExpiredSignatureError
  | InvalidSignatureError
  | InvalidAlgorithmError
  | DecodeError
  | TypeError

text \<open>
  \<^verbatim>\<open>bson.ObjectId\<close>: a 12-byte identifier, written as 24 hexadecimal digits.
  \<^verbatim>\<open>ObjectId(s)\<close> raises \<^verbatim>\<open>InvalidId\<close> on any other string and ignores the case of
  the digits; \<^verbatim>\<open>str(oid)\<close> gives the lower-case digits back.
\<close>

datatype oid = Oid string

definition is_hex :: "char \<Rightarrow> bool" where
  "is_hex c = (c \<in> set ''0123456789abcdefABCDEF'')"

definition lower_hex :: "char \<Rightarrow> char" where
  "lower_hex c =
     (if c = CHR ''A'' then CHR ''a'' else if c = CHR ''B'' then CHR ''b''
      else if c = CHR ''C'' then CHR ''c'' else if c = CHR ''D'' then CHR ''d''
      else if c = CHR ''E'' then CHR ''e'' else if c = CHR ''F'' then CHR ''f''
      else c)"

definition ObjectId :: "string \<Rightarrow> error + oid" where
  "ObjectId s =
     (if length s = 24 \<and> list_all is_hex s then Inr (Oid (map lower_hex s))
      else Inl InvalidId)"

fun str_oid :: "oid \<Rightarrow> string" where
  "str_oid (Oid h) = h"

section \<open>Documents and collections\<close>

text \<open>
  The three collections hold the documents of \<^verbatim>\<open>schemas.py\<close> plus the \<^verbatim>\<open>_id\<close> the
  driver adds. User documents are read with \<^verbatim>\<open>.get\<close> throughout, so each of their
  fields may be missing (\<open>None\<close>). Times are seconds since the epoch.
\<close>

record user =
  u_id :: oid
  u_name :: "string option"
  u_email :: "string option"
  password_hash :: "string option"
  u_phone :: "string option"
  is_admin :: "bool option"

record file_meta =
  filename :: "string option"
  content_type :: "string option"
  f_size :: nat
  uploaded_at :: int

record project =
  p_id :: oid
  user_id :: "string option"
  p_name :: string
  p_email :: string
  p_phone :: "string option"
  selected_service :: string
  description :: string
  budget :: "string option"
  status :: string
  p_notes :: "string option"
  files :: "file_meta list"

record message =
  m_id :: oid
  project_id :: string
  sender_id :: "string option"
  sender_role :: string
  content :: string
  created_at :: "int option"

record db =
  users :: "user list"
  projects :: "project list"
  messages :: "message list"

text \<open>
  The driver's calls, on a collection kept in insertion order: \<^verbatim>\<open>find_one\<close> returns the
  first document the query matches, \<^verbatim>\<open>find\<close> all of them, \<^verbatim>\<open>update_one\<close> changes the
  first one it matches and nothing when none matches, \<^verbatim>\<open>insert_one\<close> appends.
\<close>

definition find_one :: "('a \<Rightarrow> bool) \<Rightarrow> 'a list \<Rightarrow> 'a option" where
  "find_one q c = List.find q c"

definition find_many :: "('a \<Rightarrow> bool) \<Rightarrow> 'a list \<Rightarrow> 'a list" where
  "find_many q c = filter q c"

fun update_one :: "('a \<Rightarrow> bool) \<Rightarrow> ('a \<Rightarrow> 'a) \<Rightarrow> 'a list \<Rightarrow> 'a list" where
  "update_one q f [] = []"
| "update_one q f (d # c) = (if q d then f d # c else d # update_one q f c)"

definition insert_one :: "'a \<Rightarrow> 'a list \<Rightarrow> 'a list" where
  "insert_one d c = c @ [d]"

text \<open>
  \<^verbatim>\<open>cursor.sort(key, -1)\<close>: descending by the key, a missing key (\<open>None\<close>) below every
  value. Documents with equal keys keep the order the cursor had.
\<close>

fun insort_desc :: "('a \<Rightarrow> 'k::linorder) \<Rightarrow> 'a \<Rightarrow> 'a list \<Rightarrow> 'a list" where
  "insort_desc key x [] = [x]"
| "insort_desc key x (y # ys) =
     (if key y < key x then x # y # ys else y # insort_desc key x ys)"

definition sort_desc :: "('a \<Rightarrow> 'k::linorder) \<Rightarrow> 'a list \<Rightarrow> 'a list" where
  "sort_desc key c = foldl (\<lambda>acc x. insort_desc key x acc) [] c"

text \<open>\<^verbatim>\<open>user.get("password_hash", "")\<close> and \<^verbatim>\<open>current_user.get("is_admin", False)\<close>\<close>

definition stored_hash :: "user \<Rightarrow> string" where
  "stored_hash u = (case password_hash u of None \<Rightarrow> '''' | Some h \<Rightarrow> h)"

definition get_is_admin :: "user \<Rightarrow> bool" where
  "get_is_admin u = (case is_admin u of None \<Rightarrow> False | Some b \<Rightarrow> b)"

section \<open>Utility functions\<close>

text \<open>
  \<^verbatim>\<open>pwd_context.verify\<close> is passlib's and not part of the sources. It is the parameter
  \<open>pwd_verify\<close> of everything that calls it: a function of the password and the hash that
  returns a boolean or raises. \<^verbatim>\<open>verify_password\<close> calls it and catches nothing.
\<close>

definition verify_password ::
  "(string \<Rightarrow> string \<Rightarrow> error + bool) \<Rightarrow> string \<Rightarrow> string \<Rightarrow> error + bool" where
  "verify_password pwd_verify password hashed = pwd_verify password hashed"

text \<open>
  Tokens are PyJWT's. A token carries its algorithm, its claims and a signature; the
  signature is symbolic, the triple it was computed from, so that two signatures are
  equal exactly when algorithm, key and claims are. \<^verbatim>\<open>jwt.decode\<close> refuses what is not a
  token, then an algorithm outside the list, then a signature that is not the one of
  these claims under this key, then an \<^verbatim>\<open>exp\<close> that has been reached.
\<close>

record claims =
  sub :: "string option"
  exp :: "int option"

datatype signature = Mac string string claims

datatype token = Token string claims signature | NotAToken string

definition jwt_encode :: "claims \<Rightarrow> string \<Rightarrow> string \<Rightarrow> token" where
  "jwt_encode payload key algorithm = Token algorithm payload (Mac algorithm key payload)"

fun jwt_decode :: "token \<Rightarrow> string \<Rightarrow> string list \<Rightarrow> int \<Rightarrow> error + claims" where
  "jwt_decode (NotAToken s) key algorithms now = Inl DecodeError"
| "jwt_decode (Token alg payload sg) key algorithms now =
     (if alg \<notin> set algorithms then Inl InvalidAlgorithmError
      else if sg \<noteq> Mac alg key payload then Inl InvalidSignatureError
      else case exp payload of
             None \<Rightarrow> Inr payload
           | Some e \<Rightarrow> if e \<le> now then Inl ExpiredSignatureError else Inr payload)"

definition JWT_ALG :: string where
  "JWT_ALG = ''HS256''"

definition ACCESS_TOKEN_EXPIRE_MINUTES :: int where
  "ACCESS_TOKEN_EXPIRE_MINUTES = 60 * 24 * 7"

text \<open>
  \<^verbatim>\<open>create_access_token\<close>. \<open>JWT_SECRET\<close> is the process's secret and \<open>now\<close> the clock's
  reading; \<open>expires_delta\<close> is in seconds. In \<^verbatim>\<open>expires_delta or timedelta(...)\<close> a zero
  delta is falsy, as \<^verbatim>\<open>None\<close> is.
\<close>

definition create_access_token :: "string \<Rightarrow> int \<Rightarrow> claims \<Rightarrow> int option \<Rightarrow> token" where
  "create_access_token JWT_SECRET now data expires_delta =
     (let expire = now + (case expires_delta of
                            None \<Rightarrow> 60 * ACCESS_TOKEN_EXPIRE_MINUTES
                          | Some d \<Rightarrow> if d = 0 then 60 * ACCESS_TOKEN_EXPIRE_MINUTES else d);
          to_encode = data\<lparr>exp := Some expire\<rparr>
      in jwt_encode to_encode JWT_SECRET JWT_ALG)"

section \<open>Auth dependency\<close>

text \<open>The body of the \<^verbatim>\<open>try\<close> of \<^verbatim>\<open>get_current_user\<close>, with the exceptions it raises.\<close>

definition get_current_user_try :: "string \<Rightarrow> int \<Rightarrow> db \<Rightarrow> token \<Rightarrow> error + user" where
  "get_current_user_try JWT_SECRET now st tok =
     (case jwt_decode tok JWT_SECRET [JWT_ALG] now of
        Inl e \<Rightarrow> Inl e
      | Inr payload \<Rightarrow>
          (case sub payload of
             None \<Rightarrow> Inl (HTTPException 401 ''Invalid token'')
           | Some uid \<Rightarrow>
               (case ObjectId uid of
                  Inl e \<Rightarrow> Inl e
                | Inr i \<Rightarrow>
                    (case find_one (\<lambda>d. u_id d = i) (users st) of
                       None \<Rightarrow> Inl (HTTPException 401 ''User not found'')
                     | Some u \<Rightarrow> Inr u))))"

text \<open>
  The two \<^verbatim>\<open>except\<close> clauses: \<^verbatim>\<open>ExpiredSignatureError\<close> first, then every other
  exception, the \<^verbatim>\<open>HTTPException\<close>s of the body among them.
\<close>

definition get_current_user :: "string \<Rightarrow> int \<Rightarrow> db \<Rightarrow> token \<Rightarrow> error + user" where
  "get_current_user JWT_SECRET now st tok =
     (case get_current_user_try JWT_SECRET now st tok of
        Inr u \<Rightarrow> Inr u
      | Inl ExpiredSignatureError \<Rightarrow> Inl (HTTPException 401 ''Token expired'')
      | Inl _ \<Rightarrow> Inl (HTTPException 401 ''Could not validate credentials''))"

section \<open>Auth endpoints\<close>

record LoginModel =
  lm_email :: string
  lm_password :: string

record public_user =
  pub_id :: string
  pub_name :: "string option"
  pub_email :: "string option"
  pub_is_admin :: bool

record login_response =
  access_token :: token
  token_type :: string
  resp_user :: public_user

definition login ::
  "(string \<Rightarrow> string \<Rightarrow> error + bool) \<Rightarrow> string \<Rightarrow> int \<Rightarrow> db \<Rightarrow> LoginModel
     \<Rightarrow> error + login_response" where
  "login pwd_verify JWT_SECRET now st payload =
     (case find_one (\<lambda>d. u_email d = Some (lm_email payload)) (users st) of
        None \<Rightarrow> Inl (HTTPException 401 ''Invalid credentials'')
      | Some u \<Rightarrow>
          (case verify_password pwd_verify (lm_password payload) (stored_hash u) of
             Inl e \<Rightarrow> Inl e
           | Inr ok \<Rightarrow>
               if \<not> ok then Inl (HTTPException 401 ''Invalid credentials'')
               else Inr \<lparr>access_token =
                           create_access_token JWT_SECRET now
                             \<lparr>sub = Some (str_oid (u_id u)), exp = None\<rparr> None,
                         token_type = ''bearer'',
                         resp_user = \<lparr>pub_id = str_oid (u_id u), pub_name = u_name u,
                                      pub_email = u_email u,
                                      pub_is_admin = get_is_admin u\<rparr>\<rparr>))"

section \<open>Customer profile\<close>

record ProfileUpdateModel =
  pu_name :: "string option"
  pu_phone :: "string option"

record profile =
  r_id :: string
  r_name :: "string option"
  r_email :: "string option"
  r_phone :: "string option"
  r_is_admin :: bool

definition profile_of :: "user \<Rightarrow> profile" where
  "profile_of u =
     \<lparr>r_id = str_oid (u_id u), r_name = u_name u, r_email = u_email u,
      r_phone = u_phone u, r_is_admin = get_is_admin u\<rparr>"

text \<open>
  \<^verbatim>\<open>payload.model_dump()\<close> has exactly the keys of \<^verbatim>\<open>ProfileUpdateModel\<close>, in field
  order; the comprehension keeps those whose value is not \<^verbatim>\<open>None\<close>.
\<close>

definition model_dump_profile :: "ProfileUpdateModel \<Rightarrow> (string \<times> string option) list" where
  "model_dump_profile payload = [(''name'', pu_name payload), (''phone'', pu_phone payload)]"

fun not_none_items :: "(string \<times> string option) list \<Rightarrow> (string \<times> string) list" where
  "not_none_items [] = []"
| "not_none_items ((k, None) # kvs) = not_none_items kvs"
| "not_none_items ((k, Some v) # kvs) = (k, v) # not_none_items kvs"

text \<open>\<^verbatim>\<open>{"$set": update}\<close> on a user document: each key overwrites the field it names.\<close>

definition set_user_field :: "string \<times> string \<Rightarrow> user \<Rightarrow> user" where
  "set_user_field kv u =
     (if fst kv = ''name'' then u\<lparr>u_name := Some (snd kv)\<rparr>
      else if fst kv = ''email'' then u\<lparr>u_email := Some (snd kv)\<rparr>
      else if fst kv = ''password_hash'' then u\<lparr>password_hash := Some (snd kv)\<rparr>
      else if fst kv = ''phone'' then u\<lparr>u_phone := Some (snd kv)\<rparr>
      else u)"

definition dollar_set_user :: "(string \<times> string) list \<Rightarrow> user \<Rightarrow> user" where
  "dollar_set_user update u = fold set_user_field update u"

text \<open>
  \<^verbatim>\<open>update_me\<close>. The result is the store after the call and what the handler returns;
  subscripting the \<^verbatim>\<open>None\<close> of a missed re-read raises \<^verbatim>\<open>TypeError\<close>.
\<close>

definition update_me :: "db \<Rightarrow> ProfileUpdateModel \<Rightarrow> user \<Rightarrow> db \<times> (error + profile)" where
  "update_me st payload current_user =
     (let update = not_none_items (model_dump_profile payload);
          st' = (if update \<noteq> []
                 then st\<lparr>users := update_one (\<lambda>d. u_id d = u_id current_user)
                                     (dollar_set_user update) (users st)\<rparr>
                 else st)
      in (st', case find_one (\<lambda>d. u_id d = u_id current_user) (users st') of
                 None \<Rightarrow> Inl TypeError
               | Some u \<Rightarrow> Inr (profile_of u)))"

section \<open>Projects\<close>

record ProjectCreateModel =
  pc_name :: string
  pc_email :: string
  pc_phone :: "string option"
  pc_selected_service :: string
  pc_description :: string
  pc_budget :: "string option"

text \<open>
  \<^verbatim>\<open>create_project\<close>. \<open>new_pid\<close> and \<open>new_mid\<close> are the identifiers the driver generates
  for the two inserts, \<open>now\<close> the clock's reading. The handler raises nothing.
\<close>

definition create_project ::
  "db \<Rightarrow> oid \<Rightarrow> oid \<Rightarrow> int \<Rightarrow> ProjectCreateModel \<Rightarrow> user \<Rightarrow> db \<times> (error + string)" where
  "create_project st new_pid new_mid now payload current_user =
     (let proj = \<lparr>p_id = new_pid,
                  user_id = Some (str_oid (u_id current_user)),
                  p_name = pc_name payload,
                  p_email = pc_email payload,
                  p_phone = pc_phone payload,
                  selected_service = pc_selected_service payload,
                  description = pc_description payload,
                  budget = pc_budget payload,
                  status = ''Pending'',
                  p_notes = None,
                  files = []\<rparr>;
          st1 = st\<lparr>projects := insert_one proj (projects st)\<rparr>;
          inserted_id = new_pid;
          st2 = st1\<lparr>messages := insert_one
                   \<lparr>m_id = new_mid,
                    project_id = str_oid inserted_id,
                    sender_id = Some (str_oid (u_id current_user)),
                    sender_role = ''customer'',
                    content = ''New project submitted'',
                    created_at = Some now\<rparr> (messages st1)\<rparr>
      in (st2, Inr (str_oid inserted_id)))"



record MessageModel =
  mm_project_id :: string
  mm_content :: string

definition send_message ::
  "db \<Rightarrow> oid \<Rightarrow> int \<Rightarrow> string \<Rightarrow> MessageModel \<Rightarrow> user \<Rightarrow> db \<times> (error + string)" where
  "send_message st new_mid now pid payload current_user =
     (case ObjectId pid of
        Inl e \<Rightarrow> (st, Inl e)
      | Inr i \<Rightarrow>
          (case find_one (\<lambda>p. p_id p = i) (projects st) of
             None \<Rightarrow> (st, Inl (HTTPException 404 ''Project not found''))
           | Some proj \<Rightarrow>
               (let role = (if get_is_admin current_user then ''admin'' else ''customer'');
                    msg = \<lparr>m_id = new_mid,
                           project_id = pid,
                           sender_id = Some (str_oid (u_id current_user)),
                           sender_role = role,
                           content = mm_content payload,
                           created_at = Some now\<rparr>
                in (st\<lparr>messages := insert_one msg (messages st)\<rparr>, Inr ''Sent''))))"

section \<open>Admin endpoints\<close>

text \<open>
  A query is a list of equalities between a field of the project document and a string.
  \<^verbatim>\<open>if service:\<close> and \<^verbatim>\<open>if status:\<close> test truthiness: \<^verbatim>\<open>None\<close> and the empty string
  both add nothing to the query.
\<close>

definition project_field :: "string \<Rightarrow> project \<Rightarrow> string option" where
  "project_field k p =
     (if k = ''user_id'' then user_id p
      else if k = ''name'' then Some (p_name p)
      else if k = ''email'' then Some (p_email p)
      else if k = ''phone'' then p_phone p
      else if k = ''selected_service'' then Some (selected_service p)
      else if k = ''description'' then Some (description p)
      else if k = ''budget'' then budget p
      else if k = ''status'' then Some (status p)
      else if k = ''notes'' then p_notes p
      else None)"

definition matches :: "(string \<times> string) list \<Rightarrow> project \<Rightarrow> bool" where
  "matches q p = list_all (\<lambda>kv. project_field (fst kv) p = Some (snd kv)) q"

text \<open>
  The key of \<^verbatim>\<open>sort("created_at", -1)\<close> on a project document. \<^verbatim>\<open>schemas.Project\<close> has
  no such field and \<^verbatim>\<open>create_project\<close> stores none: the key is missing on every project.
\<close>

definition project_created_at :: "project \<Rightarrow> int option" where
  "project_created_at p = None"

definition admin_list_projects ::
  "db \<Rightarrow> string option \<Rightarrow> string option \<Rightarrow> user \<Rightarrow> error + project list" where
  "admin_list_projects st service status_filter current_user =
     (if \<not> get_is_admin current_user then Inl (HTTPException 403 ''Admins only'')
      else
        (let q0 = [];
             q1 = (case service of
                     None \<Rightarrow> q0
                   | Some s \<Rightarrow> if s = [] then q0 else q0 @ [(''selected_service'', s)]);
             q = (case status_filter of
                    None \<Rightarrow> q1
                  | Some s \<Rightarrow> if s = [] then q1 else q1 @ [(''status'', s)])
         in Inr (sort_desc project_created_at (find_many (matches q) (projects st)))))"





section \<open>The route table and the schema endpoint\<close>

datatype http_method = GET | POST | PUT

datatype auth = NoAuth | Bearer

text \<open>
  The routes \<^verbatim>\<open>main.py\<close> registers, in the order of its decorators; a route is
  \<open>Bearer\<close> when its handler depends on \<^verbatim>\<open>get_current_user\<close>.
\<close>

definition routes :: "(http_method \<times> string \<times> auth) list" where
  "routes =
     [(GET, ''/'', NoAuth),
      (GET, ''/test'', NoAuth),
      (POST, ''/auth/signup'', NoAuth),
      (POST, ''/auth/login'', NoAuth),
      (GET, ''/me'', Bearer),
      (PUT, ''/me'', Bearer),
      (POST, ''/projects'', Bearer),
      (GET, ''/projects'', Bearer),
      (POST, ''/projects/{project_id}/files'', Bearer),
      (POST, ''/projects/{project_id}/messages'', Bearer),
      (GET, ''/projects/{project_id}/messages'', Bearer),
      (GET, ''/admin/projects'', Bearer),
      (PUT, ''/admin/projects/{project_id}/status'', Bearer),
      (GET, ''/schema'', NoAuth)]"

text \<open>
  \<^verbatim>\<open>get_schema\<close> takes no argument of the request. \<open>schemas_source\<close> is what
  \<^verbatim>\<open>inspect.getsource\<close> reads: the text of \<^verbatim>\<open>schemas.py\<close>. The response is a dictionary
  with the one key \<^verbatim>\<open>schemas\<close>.
\<close>

definition get_schema :: "string \<Rightarrow> (string \<times> string) list" where
  "get_schema schemas_source = [(''schemas'', schemas_source)]"

text \<open>
  The route table as the specification documents it (its section 6), path parameters
  written as the specification writes them.
\<close>

definition documented_routes :: "(http_method \<times> string) list" where
  "documented_routes =
     [(GET, ''/''),
      (GET, ''/test''),
      (POST, ''/auth/signup''),
      (POST, ''/auth/login''),
      (GET, ''/me''),
      (PUT, ''/me''),
      (POST, ''/projects''),
      (GET, ''/projects''),
      (POST, ''/projects/{id}/files''),
      (POST, ''/projects/{id}/messages''),
      (GET, ''/projects/{id}/messages''),
      (GET, ''/admin/projects''),
      (PUT, ''/admin/projects/{id}/status'')]"

section \<open>Vocabulary of the statements\<close>


text \<open>The project stored under an identifier, and its file list.\<close>

definition project_by_id :: "db \<Rightarrow> oid \<Rightarrow> project option" where
  "project_by_id st i = find_one (\<lambda>p. p_id p = i) (projects st)"




text \<open>
  A project passes the filters of \<^verbatim>\<open>admin_list_projects\<close>: each filter that is given
  and not the empty string equals the project's field.
\<close>

definition wanted :: "string option \<Rightarrow> string option \<Rightarrow> project \<Rightarrow> bool" where
  "wanted service status_filter p =
     ((case service of None \<Rightarrow> True | Some s \<Rightarrow> s = [] \<or> selected_service p = s)
      \<and> (case status_filter of None \<Rightarrow> True | Some s \<Rightarrow> s = [] \<or> status p = s))"

text \<open>The user the lookup of \<^verbatim>\<open>login\<close> returns for an email.\<close>

definition user_by_email :: "db \<Rightarrow> string \<Rightarrow> user option" where
  "user_by_email st e = find_one (\<lambda>d. u_email d = Some e) (users st)"

text \<open>The messages of a project's thread, in the order of the collection.\<close>

definition thread :: "db \<Rightarrow> string \<Rightarrow> message list" where
  "thread st pid = find_many (\<lambda>m. project_id m = pid) (messages st)"

section \<open>A small store for the examples\<close>

text \<open>
  Alice and Bob are customers, Root is an administrator. In the examples the library's
  password check is a toy one: the hash of a password is the password behind \<^verbatim>\<open>$2b$\<close>,
  and a hash without that prefix makes the check raise.
\<close>

definition toy_verify :: "string \<Rightarrow> string \<Rightarrow> error + bool" where
  "toy_verify secret h =
     (if take 4 h = ''$2b$'' then Inr (h = ''$2b$'' @ secret) else Inl UnknownHashError)"

definition alice :: user where
  "alice = \<lparr>u_id = Oid ''a00000000000000000000001'', u_name = Some ''Alice'',
            u_email = Some ''alice@example.com'', password_hash = Some ''$2b$wonderland'',
            u_phone = None, is_admin = Some False\<rparr>"

definition bob :: user where
  "bob = \<lparr>u_id = Oid ''b00000000000000000000002'', u_name = Some ''Bob'',
          u_email = Some ''bob@example.com'', password_hash = Some ''$2b$builder'',
          u_phone = Some ''555-0100'', is_admin = None\<rparr>"

definition root :: user where
  "root = \<lparr>u_id = Oid ''c00000000000000000000003'', u_name = Some ''Root'',
           u_email = Some ''root@example.com'', password_hash = Some ''$2b$toor'',
           u_phone = None, is_admin = Some True\<rparr>"

text \<open>Dave's document has no password hash; he is the only user of \<open>db_nohash\<close>.\<close>

definition dave :: user where
  "dave = \<lparr>u_id = Oid ''f00000000000000000000004'', u_name = Some ''Dave'',
           u_email = Some ''dave@example.com'', password_hash = None,
           u_phone = None, is_admin = None\<rparr>"

definition db_nohash :: db where
  "db_nohash = \<lparr>users = [dave], projects = [], messages = []\<rparr>"

definition db0 :: db where
  "db0 = \<lparr>users = [alice, bob, root], projects = [], messages = []\<rparr>"

definition logo :: ProjectCreateModel where
  "logo = \<lparr>pc_name = ''Alice'', pc_email = ''alice@example.com'', pc_phone = None,
           pc_selected_service = ''Logo'', pc_description = ''A new logo'',
           pc_budget = None\<rparr>"

definition video :: ProjectCreateModel where
  "video = \<lparr>pc_name = ''Alice'', pc_email = ''alice@example.com'', pc_phone = None,
            pc_selected_service = ''Video'', pc_description = ''A short film'',
            pc_budget = Some ''1000''\<rparr>"

text \<open>Alice submits the logo project at time 100 and the video project at time 200.\<close>

definition db1 :: db where
  "db1 = fst (create_project db0 (Oid ''d00000000000000000000001'')
                (Oid ''e00000000000000000000001'') 100 logo alice)"

definition db2 :: db where
  "db2 = fst (create_project db1 (Oid ''d00000000000000000000002'')
                (Oid ''e00000000000000000000002'') 200 video alice)"


section \<open>Facts about the driver's calls\<close>

lemma map_update_one_frame:
  assumes "\<And>d. g (f d) = g d"
  shows "map g (update_one q f c) = map g c"
  using assms by (induction c) simp_all

lemma length_update_one: "length (update_one q f c) = length c"
  by (induction c) simp_all


lemma find_one_None_iff: "find_one q c = None \<longleftrightarrow> (\<forall>d \<in> set c. \<not> q d)"
  by (auto simp: find_one_def find_None_iff)



section \<open>Profile update\<close>

lemma dollar_set_user_profile_fields:
  "dollar_set_user (not_none_items (model_dump_profile payload)) u =
     u\<lparr>u_name := (case pu_name payload of None \<Rightarrow> u_name u | Some n \<Rightarrow> Some n),
       u_phone := (case pu_phone payload of None \<Rightarrow> u_phone u | Some p \<Rightarrow> Some p)\<rparr>"
  by (cases "pu_name payload"; cases "pu_phone payload")
     (simp_all add: dollar_set_user_def model_dump_profile_def set_user_field_def)

text \<open>
  C7. \<^verbatim>\<open>update_me\<close> with neither name nor phone supplied leaves the whole store as it
  was; with only the phone supplied every user's name is as before; and under any
  payload no user's id, email, password hash or admin flag changes, no user is added or
  removed, and the projects and messages are untouched.
\<close>

theorem update_me_frame:
  fixes st :: db and payload :: ProfileUpdateModel and current_user :: user
  defines "st' \<equiv> fst (update_me st payload current_user)"
  shows "(pu_name payload = None \<and> pu_phone payload = None \<longrightarrow> st' = st)
       \<and> (pu_name payload = None \<longrightarrow> map u_name (users st') = map u_name (users st))
       \<and> (pu_phone payload = None \<longrightarrow> map u_phone (users st') = map u_phone (users st))
       \<and> map u_email (users st') = map u_email (users st)
       \<and> map is_admin (users st') = map is_admin (users st)
       \<and> map u_id (users st') = map u_id (users st)
       \<and> map password_hash (users st') = map password_hash (users st)
       \<and> projects st' = projects st
       \<and> messages st' = messages st"
proof -
  let ?up = "not_none_items (model_dump_profile payload)"
  let ?c = "update_one (\<lambda>d. u_id d = u_id current_user) (dollar_set_user ?up) (users st)"
  have st': "st' = (if ?up \<noteq> [] then st\<lparr>users := ?c\<rparr> else st)"
    by (simp add: st'_def update_me_def Let_def)
  have empty: "?up = []" if "pu_name payload = None" "pu_phone payload = None"
    using that by (simp add: model_dump_profile_def)
  have frame: "map g ?c = map g (users st)"
    if "\<And>u. g (dollar_set_user ?up u) = g u" for g :: "user \<Rightarrow> 'b"
    using that by (rule map_update_one_frame)
  have name: "map u_name ?c = map u_name (users st)" if "pu_name payload = None"
    by (rule frame) (simp add: dollar_set_user_profile_fields that)
  have phone: "map u_phone ?c = map u_phone (users st)" if "pu_phone payload = None"
    by (rule frame) (simp add: dollar_set_user_profile_fields that)
  have email: "map u_email ?c = map u_email (users st)"
    by (rule frame) (simp add: dollar_set_user_profile_fields)
  have admin: "map is_admin ?c = map is_admin (users st)"
    by (rule frame) (simp add: dollar_set_user_profile_fields)
  have ids: "map u_id ?c = map u_id (users st)"
    by (rule frame) (simp add: dollar_set_user_profile_fields)
  have hash: "map password_hash ?c = map password_hash (users st)"
    by (rule frame) (simp add: dollar_set_user_profile_fields)
  show ?thesis
    using empty name phone email admin ids hash by (simp add: st')
qed

theorem update_me_frame_witness:
  "pu_name \<lparr>pu_name = None, pu_phone = Some ''555-0199''\<rparr> = None
   \<and> map u_name (users (fst (update_me db0 \<lparr>pu_name = None, pu_phone = Some ''555-0199''\<rparr> alice)))
       = [Some ''Alice'', Some ''Bob'', Some ''Root'']
   \<and> map u_phone (users (fst (update_me db0 \<lparr>pu_name = None, pu_phone = Some ''555-0199''\<rparr> alice)))
       = [Some ''555-0199'', Some ''555-0100'', None]
   \<and> fst (update_me db0 \<lparr>pu_name = None, pu_phone = None\<rparr> alice) = db0"
  using update_me_frame [of "\<lparr>pu_name = None, pu_phone = Some ''555-0199''\<rparr>" db0 alice]
        update_me_frame [of "\<lparr>pu_name = None, pu_phone = None\<rparr>" db0 alice]
  by (simp add: update_me_def db0_def alice_def bob_def root_def model_dump_profile_def
        dollar_set_user_def set_user_field_def)

section \<open>File upload\<close>










text \<open>The example store after Alice's first project.\<close>

lemma db1_eq:
  "db1 = \<lparr>users = [alice, bob, root],
          projects = [\<lparr>p_id = Oid ''d00000000000000000000001'',
                       user_id = Some ''a00000000000000000000001'',
                       p_name = ''Alice'', p_email = ''alice@example.com'', p_phone = None,
                       selected_service = ''Logo'', description = ''A new logo'',
                       budget = None, status = ''Pending'', p_notes = None, files = []\<rparr>],
          messages = [\<lparr>m_id = Oid ''e00000000000000000000001'',
                       project_id = ''d00000000000000000000001'',
                       sender_id = Some ''a00000000000000000000001'',
                       sender_role = ''customer'', content = ''New project submitted'',
                       created_at = Some 100\<rparr>]\<rparr>"
  by (simp add: db1_def create_project_def db0_def insert_one_def logo_def alice_def Let_def)











section \<open>Status update\<close>







section \<open>Project creation\<close>

lemma create_project_unfold:
  "create_project st new_pid new_mid now payload cu =
     (st\<lparr>projects := projects st @
            [\<lparr>p_id = new_pid, user_id = Some (str_oid (u_id cu)), p_name = pc_name payload,
              p_email = pc_email payload, p_phone = pc_phone payload,
              selected_service = pc_selected_service payload,
              description = pc_description payload, budget = pc_budget payload,
              status = ''Pending'', p_notes = None, files = []\<rparr>],
         messages := messages st @
            [\<lparr>m_id = new_mid, project_id = str_oid new_pid,
              sender_id = Some (str_oid (u_id cu)), sender_role = ''customer'',
              content = ''New project submitted'', created_at = Some now\<rparr>]\<rparr>,
      Inr (str_oid new_pid))"
  by (simp add: create_project_def insert_one_def Let_def)

text \<open>The sibling path: \<^verbatim>\<open>send_message\<close> takes the role from the sender's admin flag.\<close>

lemma send_message_role:
  assumes "ObjectId pid = Inr i" "project_by_id st i \<noteq> None"
  shows "messages (fst (send_message st new_mid now pid payload cu)) =
     messages st @
       [\<lparr>m_id = new_mid, project_id = pid, sender_id = Some (str_oid (u_id cu)),
         sender_role = (if get_is_admin cu then ''admin'' else ''customer''),
         content = mm_content payload, created_at = Some now\<rparr>]"
  using assms by (auto simp: send_message_def project_by_id_def insert_one_def Let_def)

text \<open>
  C1, as the code has it. When no message refers to the new project's identifier yet,
  \<^verbatim>\<open>create_project\<close> returns the identifier and leaves exactly one message in the
  project's thread: the text \<^verbatim>\<open>New project submitted\<close>, sent by the creator. Its role is
  the constant \<^verbatim>\<open>customer\<close> whatever the creator's admin flag, which is where the code
  departs from the claim.
\<close>

theorem create_project_initial_message:
  assumes "\<forall>m \<in> set (messages st). project_id m \<noteq> str_oid new_pid"
  shows "snd (create_project st new_pid new_mid now payload cu) = Inr (str_oid new_pid)
       \<and> thread st (str_oid new_pid) = []
       \<and> thread (fst (create_project st new_pid new_mid now payload cu)) (str_oid new_pid)
           = [\<lparr>m_id = new_mid, project_id = str_oid new_pid,
               sender_id = Some (str_oid (u_id cu)), sender_role = ''customer'',
               content = ''New project submitted'', created_at = Some now\<rparr>]"
proof -
  have "filter (\<lambda>m. project_id m = str_oid new_pid) (messages st) = []"
    using assms by (simp add: filter_empty_conv)
  then show ?thesis
    by (simp add: create_project_unfold thread_def find_many_def)
qed

theorem create_project_initial_message_witness:
  "get_is_admin root
   \<and> messages db0 = []
   \<and> thread (fst (create_project db0 (Oid ''d00000000000000000000001'')
                     (Oid ''e00000000000000000000001'') 100 logo root))
        ''d00000000000000000000001''
       = [\<lparr>m_id = Oid ''e00000000000000000000001'', project_id = ''d00000000000000000000001'',
           sender_id = Some ''c00000000000000000000003'', sender_role = ''customer'',
           content = ''New project submitted'', created_at = Some 100\<rparr>]"
proof -
  have r: "get_is_admin root"
    by (simp add: root_def get_is_admin_def)
  have m: "messages db0 = []"
    by (simp add: db0_def)
  have i: "u_id root = Oid ''c00000000000000000000003''"
    by (simp add: root_def)
  show ?thesis
    using create_project_initial_message
            [of db0 "Oid ''d00000000000000000000001''" "Oid ''e00000000000000000000001''"
               100 logo root] r m i
    by simp
qed

section \<open>Passwords and login\<close>

lemma login_unfold:
  "login pwd_verify secret now st payload =
     (case user_by_email st (lm_email payload) of
        None \<Rightarrow> Inl (HTTPException 401 ''Invalid credentials'')
      | Some u \<Rightarrow>
          (case verify_password pwd_verify (lm_password payload) (stored_hash u) of
             Inl e \<Rightarrow> Inl e
           | Inr ok \<Rightarrow>
               if ok
               then Inr \<lparr>access_token =
                           create_access_token secret now
                             \<lparr>sub = Some (str_oid (u_id u)), exp = None\<rparr> None,
                         token_type = ''bearer'',
                         resp_user = \<lparr>pub_id = str_oid (u_id u), pub_name = u_name u,
                                      pub_email = u_email u,
                                      pub_is_admin = get_is_admin u\<rparr>\<rparr>
               else Inl (HTTPException 401 ''Invalid credentials'')))"
  by (simp add: login_def user_by_email_def split: option.splits sum.splits)

text \<open>
  C4, as the code has it. The email lookup finds a user exactly when some stored user
  has that very email. When it finds none, \<^verbatim>\<open>login\<close> fails with 401
  \<^verbatim>\<open>Invalid credentials\<close>. When it finds one, the password is checked against that
  user's stored hash, the empty string when the document has none: \<^verbatim>\<open>login\<close> succeeds
  for that user when the check returns true, and fails with the same 401 when it returns
  false. When the check raises, \<^verbatim>\<open>login\<close> ends with the exception of the check and not
  with the 401, which is where the code departs from the claim.
\<close>

theorem login_outcome:
  "((\<exists>u. user_by_email st (lm_email payload) = Some u)
      \<longleftrightarrow> (\<exists>u \<in> set (users st). u_email u = Some (lm_email payload)))
   \<and> (user_by_email st (lm_email payload) = None \<longrightarrow>
        login pwd_verify secret now st payload
          = Inl (HTTPException 401 ''Invalid credentials''))
   \<and> (\<forall>u. user_by_email st (lm_email payload) = Some u \<longrightarrow>
         (verify_password pwd_verify (lm_password payload) (stored_hash u) = Inr True \<longrightarrow>
            (\<exists>r. login pwd_verify secret now st payload = Inr r
                 \<and> pub_id (resp_user r) = str_oid (u_id u)))
       \<and> (verify_password pwd_verify (lm_password payload) (stored_hash u) = Inr False \<longrightarrow>
            login pwd_verify secret now st payload
              = Inl (HTTPException 401 ''Invalid credentials''))
       \<and> (\<forall>e. verify_password pwd_verify (lm_password payload) (stored_hash u) = Inl e \<longrightarrow>
            login pwd_verify secret now st payload = Inl e))"
proof (intro conjI allI impI)
  show "(\<exists>u. user_by_email st (lm_email payload) = Some u)
          \<longleftrightarrow> (\<exists>u \<in> set (users st). u_email u = Some (lm_email payload))"
  proof (cases "user_by_email st (lm_email payload)")
    case None
    then show ?thesis
      by (simp add: user_by_email_def find_one_None_iff)
  next
    case (Some u)
    then have "\<exists>v \<in> set (users st). u_email v = Some (lm_email payload)"
      by (auto simp: user_by_email_def find_one_def find_Some_iff)
    with Some show ?thesis by simp
  qed
next
  assume "user_by_email st (lm_email payload) = None"
  then show "login pwd_verify secret now st payload
               = Inl (HTTPException 401 ''Invalid credentials'')"
    by (simp add: login_unfold)
next
  fix u
  assume "user_by_email st (lm_email payload) = Some u"
    and "verify_password pwd_verify (lm_password payload) (stored_hash u) = Inr True"
  then show "\<exists>r. login pwd_verify secret now st payload = Inr r
                \<and> pub_id (resp_user r) = str_oid (u_id u)"
    by (simp add: login_unfold)
next
  fix u
  assume "user_by_email st (lm_email payload) = Some u"
    and "verify_password pwd_verify (lm_password payload) (stored_hash u) = Inr False"
  then show "login pwd_verify secret now st payload
               = Inl (HTTPException 401 ''Invalid credentials'')"
    by (simp add: login_unfold)
next
  fix u e
  assume "user_by_email st (lm_email payload) = Some u"
    and "verify_password pwd_verify (lm_password payload) (stored_hash u) = Inl e"
  then show "login pwd_verify secret now st payload = Inl e"
    by (simp add: login_unfold)
qed

lemma user_by_email_examples:
  "user_by_email db0 ''alice@example.com'' = Some alice"
  "user_by_email db0 ''carol@example.com'' = None"
  "user_by_email db_nohash ''dave@example.com'' = Some dave"
  by (simp_all add: user_by_email_def find_one_def db0_def db_nohash_def
        alice_def bob_def root_def dave_def)

lemma toy_verify_examples:
  "verify_password toy_verify ''wonderland'' (stored_hash alice) = Inr True"
  "verify_password toy_verify ''looking-glass'' (stored_hash alice) = Inr False"
  "stored_hash dave = []"
  "verify_password toy_verify ''wonderland'' [] = Inl UnknownHashError"
  by (simp_all add: verify_password_def toy_verify_def stored_hash_def alice_def dave_def)

theorem login_outcome_witness:
  "user_by_email db0 ''alice@example.com'' = Some alice
   \<and> verify_password toy_verify ''wonderland'' (stored_hash alice) = Inr True
   \<and> (\<exists>r. login toy_verify ''dev-secret'' 1000 db0
              \<lparr>lm_email = ''alice@example.com'', lm_password = ''wonderland''\<rparr> = Inr r
          \<and> pub_id (resp_user r) = str_oid (u_id alice))
   \<and> verify_password toy_verify ''looking-glass'' (stored_hash alice) = Inr False
   \<and> login toy_verify ''dev-secret'' 1000 db0
        \<lparr>lm_email = ''alice@example.com'', lm_password = ''looking-glass''\<rparr>
       = Inl (HTTPException 401 ''Invalid credentials'')
   \<and> user_by_email db0 ''carol@example.com'' = None
   \<and> login toy_verify ''dev-secret'' 1000 db0
        \<lparr>lm_email = ''carol@example.com'', lm_password = ''wonderland''\<rparr>
       = Inl (HTTPException 401 ''Invalid credentials'')
   \<and> user_by_email db_nohash ''dave@example.com'' = Some dave
   \<and> stored_hash dave = []
   \<and> verify_password toy_verify ''wonderland'' (stored_hash dave) = Inl UnknownHashError
   \<and> login toy_verify ''dev-secret'' 1000 db_nohash
        \<lparr>lm_email = ''dave@example.com'', lm_password = ''wonderland''\<rparr>
       = Inl UnknownHashError"
proof -
  note found = login_outcome
                 [where pwd_verify = toy_verify and secret = "''dev-secret''" and now = 1000,
                  THEN conjunct2, THEN conjunct2, rule_format]
  note missing = login_outcome
                   [where pwd_verify = toy_verify and secret = "''dev-secret''" and now = 1000,
                    THEN conjunct2, THEN conjunct1, rule_format]
  have right: "\<exists>r. login toy_verify ''dev-secret'' 1000 db0
                     \<lparr>lm_email = ''alice@example.com'', lm_password = ''wonderland''\<rparr> = Inr r
                 \<and> pub_id (resp_user r) = str_oid (u_id alice)"
    by (rule found [where u = alice, THEN conjunct1, rule_format])
       (simp_all add: user_by_email_examples toy_verify_examples)
  have wrong: "login toy_verify ''dev-secret'' 1000 db0
                 \<lparr>lm_email = ''alice@example.com'', lm_password = ''looking-glass''\<rparr>
               = Inl (HTTPException 401 ''Invalid credentials'')"
    by (rule found [where u = alice, THEN conjunct2, THEN conjunct1, rule_format])
       (simp_all add: user_by_email_examples toy_verify_examples)
  have unknown: "login toy_verify ''dev-secret'' 1000 db0
                   \<lparr>lm_email = ''carol@example.com'', lm_password = ''wonderland''\<rparr>
                 = Inl (HTTPException 401 ''Invalid credentials'')"
    by (rule missing) (simp add: user_by_email_examples)
  have raised: "login toy_verify ''dev-secret'' 1000 db_nohash
                  \<lparr>lm_email = ''dave@example.com'', lm_password = ''wonderland''\<rparr>
                = Inl UnknownHashError"
    by (rule found [where u = dave, THEN conjunct2, THEN conjunct2, rule_format])
       (simp_all add: user_by_email_examples toy_verify_examples)
  show ?thesis
    using right wrong unknown raised user_by_email_examples toy_verify_examples
    by simp
qed

section \<open>Listing all projects\<close>

lemma mset_insort_desc: "mset (insort_desc key x ys) = add_mset x (mset ys)"
  by (induction ys) simp_all

lemma mset_foldl_insort_desc:
  "mset (foldl (\<lambda>acc x. insort_desc key x acc) acc c) = mset acc + mset c"
  by (induction c arbitrary: acc) (simp_all add: mset_insort_desc)

lemma mset_sort_desc: "mset (sort_desc key c) = mset c"
  by (simp add: sort_desc_def mset_foldl_insort_desc)

lemma insort_desc_tie:
  assumes "\<forall>y \<in> set ys. \<not> key y < key x"
  shows "insort_desc key x ys = ys @ [x]"
  using assms by (induction ys) simp_all

lemma foldl_insort_desc_ties:
  assumes "\<forall>x \<in> set c. \<forall>y \<in> set (acc @ c). \<not> key y < key x"
  shows "foldl (\<lambda>acc x. insort_desc key x acc) acc c = acc @ c"
  using assms
proof (induction c arbitrary: acc)
  case Nil
  then show ?case by simp
next
  case (Cons x c)
  have "insort_desc key x acc = acc @ [x]"
    using Cons.prems by (intro insort_desc_tie) simp
  moreover have "foldl (\<lambda>acc x. insort_desc key x acc) (acc @ [x]) c = (acc @ [x]) @ c"
    using Cons.prems by (intro Cons.IH) auto
  ultimately show ?case by simp
qed

lemma sort_desc_project_created_at: "sort_desc project_created_at c = c"
  unfolding sort_desc_def
  using foldl_insort_desc_ties [of c "[]" project_created_at]
  by (simp add: project_created_at_def)

lemma admin_list_projects_unfold:
  "admin_list_projects st service status_filter cu =
     (if get_is_admin cu
      then Inr (sort_desc project_created_at
                  (filter (wanted service status_filter) (projects st)))
      else Inl (HTTPException 403 ''Admins only''))"
proof -
  have m: "matches q = (\<lambda>p. list_all (\<lambda>kv. project_field (fst kv) p = Some (snd kv)) q)" for q
    by (rule ext) (simp add: matches_def)
  have w: "wanted a b =
             (\<lambda>p. (case a of None \<Rightarrow> True | Some s \<Rightarrow> s = [] \<or> selected_service p = s)
                \<and> (case b of None \<Rightarrow> True | Some s \<Rightarrow> s = [] \<or> status p = s))" for a b
    by (rule ext) (simp add: wanted_def)
  show ?thesis
    by (cases service; cases status_filter)
       (simp_all add: admin_list_projects_def Let_def find_many_def m w project_field_def)
qed

text \<open>
  With no \<^verbatim>\<open>created_at\<close> on any project the sort has nothing to order by: the
  administrator gets the projects in the order of the collection, oldest first.
\<close>

lemma admin_list_projects_order:
  assumes "get_is_admin cu"
  shows "admin_list_projects st service status_filter cu
           = Inr (filter (wanted service status_filter) (projects st))"
  using assms by (simp add: admin_list_projects_unfold sort_desc_project_created_at)

text \<open>
  C6, amended. \<^verbatim>\<open>admin_list_projects\<close> fails with 403 \<^verbatim>\<open>Admins only\<close> for a caller who
  is not an administrator. For an administrator it returns exactly the stored projects
  (each as often as it is stored) that equal every filter which is given and is not the
  empty string; an empty filter is ignored. Nothing is said of the order.
\<close>

theorem admin_list_projects_filter:
  "(\<not> get_is_admin cu \<longrightarrow>
      admin_list_projects st service status_filter cu = Inl (HTTPException 403 ''Admins only''))
   \<and> (get_is_admin cu \<longrightarrow>
        (\<exists>ps. admin_list_projects st service status_filter cu = Inr ps
             \<and> mset ps = mset (filter (wanted service status_filter) (projects st))))"
  by (simp add: admin_list_projects_unfold mset_sort_desc)


text \<open>The example store after Alice's second project.\<close>

lemma db2_eq:
  "db2 = \<lparr>users = [alice, bob, root],
          projects = [\<lparr>p_id = Oid ''d00000000000000000000001'',
                       user_id = Some ''a00000000000000000000001'',
                       p_name = ''Alice'', p_email = ''alice@example.com'', p_phone = None,
                       selected_service = ''Logo'', description = ''A new logo'',
                       budget = None, status = ''Pending'', p_notes = None, files = []\<rparr>,
                      \<lparr>p_id = Oid ''d00000000000000000000002'',
                       user_id = Some ''a00000000000000000000001'',
                       p_name = ''Alice'', p_email = ''alice@example.com'', p_phone = None,
                       selected_service = ''Video'', description = ''A short film'',
                       budget = Some ''1000'', status = ''Pending'', p_notes = None,
                       files = []\<rparr>],
          messages = [\<lparr>m_id = Oid ''e00000000000000000000001'',
                       project_id = ''d00000000000000000000001'',
                       sender_id = Some ''a00000000000000000000001'',
                       sender_role = ''customer'', content = ''New project submitted'',
                       created_at = Some 100\<rparr>,
                      \<lparr>m_id = Oid ''e00000000000000000000002'',
                       project_id = ''d00000000000000000000002'',
                       sender_id = Some ''a00000000000000000000001'',
                       sender_role = ''customer'', content = ''New project submitted'',
                       created_at = Some 200\<rparr>]\<rparr>"
  by (simp add: db2_def db1_eq create_project_def insert_one_def video_def alice_def Let_def)

theorem admin_list_projects_filter_witness:
  "\<not> get_is_admin bob
   \<and> admin_list_projects db2 None (Some ''Pending'') bob
       = Inl (HTTPException 403 ''Admins only'')
   \<and> get_is_admin root
   \<and> (\<exists>ps. admin_list_projects db2 (Some ''Video'') (Some ''Pending'') root = Inr ps
          \<and> mset (map (\<lambda>p. str_oid (p_id p)) ps) = {#''d00000000000000000000002''#})
   \<and> (\<exists>ps. admin_list_projects db2 None (Some ''pending'') root = Inr ps \<and> mset ps = {#})"
proof -
  have b: "\<not> get_is_admin bob"
    by (simp add: bob_def get_is_admin_def)
  have r: "get_is_admin root"
    by (simp add: root_def get_is_admin_def)
  show ?thesis
    using admin_list_projects_filter [of bob db2 None "Some ''Pending''"]
          admin_list_projects_filter [of root db2 "Some ''Video''" "Some ''Pending''"]
          admin_list_projects_filter [of root db2 None "Some ''pending''"]
          b r
    by (auto simp: db2_eq wanted_def)
qed

text \<open>
  The claim as it stands fails for the administrator Root on the example store. Asked for
  the status that is the empty string, the listing returns both projects, whose status is
  \<^verbatim>\<open>Pending\<close>; and asked for \<^verbatim>\<open>Pending\<close> it returns them oldest first.
\<close>

theorem admin_list_projects_counterexample:
  "get_is_admin root
   \<and> map (\<lambda>p. (str_oid (p_id p), status p)) (projects db2)
       = [(''d00000000000000000000001'', ''Pending''),
          (''d00000000000000000000002'', ''Pending'')]
   \<and> admin_list_projects db2 None (Some '''') root = Inr (projects db2)
   \<and> admin_list_projects db2 None (Some ''Pending'') root = Inr (projects db2)"
proof -
  have r: "get_is_admin root"
    by (simp add: root_def get_is_admin_def)
  show ?thesis
    by (simp add: admin_list_projects_order [OF r] r wanted_def db2_eq)
qed

section \<open>Tokens\<close>

lemma create_access_token_unfold:
  "create_access_token secret t0 data expires_delta =
     Token JWT_ALG
       (data\<lparr>exp := Some (t0 + (case expires_delta of
                                    None \<Rightarrow> 604800
                                  | Some d \<Rightarrow> if d = 0 then 604800 else d))\<rparr>)
       (Mac JWT_ALG secret
          (data\<lparr>exp := Some (t0 + (case expires_delta of
                                       None \<Rightarrow> 604800
                                     | Some d \<Rightarrow> if d = 0 then 604800 else d))\<rparr>))"
  by (simp add: create_access_token_def jwt_encode_def ACCESS_TOKEN_EXPIRE_MINUTES_def Let_def
        split: option.splits)

text \<open>A zero \<^verbatim>\<open>expires_delta\<close> gives the default lifetime of seven days, not none.\<close>

lemma create_access_token_zero_delta:
  "create_access_token secret t0 data (Some 0) = create_access_token secret t0 data None"
  by (simp add: create_access_token_unfold)

lemma get_current_user_bad_signature:
  assumes "sg \<noteq> Mac alg secret payload"
  shows "get_current_user secret t st (Token alg payload sg)
           = Inl (HTTPException 401 ''Could not validate credentials'')"
  using assms by (cases "alg = JWT_ALG") (simp_all add: get_current_user_def get_current_user_try_def)

text \<open>
  C8. Let a token be issued for a subject at time \<open>t0\<close> with a lifetime \<open>ttl\<close> (the default
  of seven days, or a given delta other than zero). Before \<open>t0 + ttl\<close> decoding gives the
  subject back, and when the subject is the identifier of a stored user
  \<^verbatim>\<open>get_current_user\<close> returns that user; from \<open>t0 + ttl\<close> on \<^verbatim>\<open>get_current_user\<close> fails
  with 401 \<^verbatim>\<open>Token expired\<close>; and at any time the token with its algorithm or claims
  altered under the issued signature, or with its signature altered, fails with 401
  \<^verbatim>\<open>Could not validate credentials\<close>.
\<close>

theorem token_round_trip:
  fixes st :: db and uid :: string and i :: oid and u :: user and secret :: string
    and t0 t :: int and expires_delta :: "int option"
  defines "ttl \<equiv> (case expires_delta of None \<Rightarrow> 60 * ACCESS_TOKEN_EXPIRE_MINUTES | Some d \<Rightarrow> d)"
  defines "issued \<equiv> \<lparr>sub = Some uid, exp = Some (t0 + ttl)\<rparr>"
  defines "tok \<equiv> create_access_token secret t0 \<lparr>sub = Some uid, exp = None\<rparr> expires_delta"
  assumes nonzero: "expires_delta \<noteq> Some 0"
  shows "tok = Token JWT_ALG issued (Mac JWT_ALG secret issued)
       \<and> (t < t0 + ttl \<longrightarrow>
            map_sum id sub (jwt_decode tok secret [JWT_ALG] t) = Inr (Some uid))
       \<and> (t < t0 + ttl \<and> ObjectId uid = Inr i
            \<and> find_one (\<lambda>d. u_id d = i) (users st) = Some u \<longrightarrow>
            get_current_user secret t st tok = Inr u \<and> u_id u = i)
       \<and> (t0 + ttl \<le> t \<longrightarrow>
            get_current_user secret t st tok = Inl (HTTPException 401 ''Token expired''))
       \<and> (\<forall>alg' payload'. alg' \<noteq> JWT_ALG \<or> payload' \<noteq> issued \<longrightarrow>
            get_current_user secret t st (Token alg' payload' (Mac JWT_ALG secret issued))
              = Inl (HTTPException 401 ''Could not validate credentials''))
       \<and> (\<forall>sg'. sg' \<noteq> Mac JWT_ALG secret issued \<longrightarrow>
            get_current_user secret t st (Token JWT_ALG issued sg')
              = Inl (HTTPException 401 ''Could not validate credentials''))"
proof -
  have ttl: "(case expires_delta of None \<Rightarrow> 604800 | Some d \<Rightarrow> if d = 0 then 604800 else d) = ttl"
    using nonzero by (simp add: ttl_def ACCESS_TOKEN_EXPIRE_MINUTES_def split: option.splits)
  have tok: "tok = Token JWT_ALG issued (Mac JWT_ALG secret issued)"
    by (simp add: tok_def issued_def create_access_token_unfold ttl)
  have early: "jwt_decode tok secret [JWT_ALG] t = Inr issued" if "t < t0 + ttl"
    using that by (simp add: tok issued_def)
  have late: "jwt_decode tok secret [JWT_ALG] t = Inl ExpiredSignatureError" if "t0 + ttl \<le> t"
    using that by (simp add: tok issued_def)
  have "get_current_user secret t st tok = Inr u \<and> u_id u = i"
    if "t < t0 + ttl" "ObjectId uid = Inr i" "find_one (\<lambda>d. u_id d = i) (users st) = Some u"
  proof
    show "get_current_user secret t st tok = Inr u"
      using early [OF that(1)] that(2,3)
      by (simp add: get_current_user_def get_current_user_try_def issued_def)
    show "u_id u = i"
      using that(3) by (auto simp: find_one_def find_Some_iff)
  qed
  moreover have "map_sum id sub (jwt_decode tok secret [JWT_ALG] t) = Inr (Some uid)"
    if "t < t0 + ttl"
    using early [OF that] by (simp add: issued_def)
  moreover have "get_current_user secret t st tok = Inl (HTTPException 401 ''Token expired'')"
    if "t0 + ttl \<le> t"
    using late [OF that] by (simp add: get_current_user_def get_current_user_try_def)
  moreover have "get_current_user secret t st (Token alg' payload' (Mac JWT_ALG secret issued))
                   = Inl (HTTPException 401 ''Could not validate credentials'')"
    if "alg' \<noteq> JWT_ALG \<or> payload' \<noteq> issued" for alg' payload'
    using that by (intro get_current_user_bad_signature) auto
  moreover have "get_current_user secret t st (Token JWT_ALG issued sg')
                   = Inl (HTTPException 401 ''Could not validate credentials'')"
    if "sg' \<noteq> Mac JWT_ALG secret issued" for sg'
    using that by (rule get_current_user_bad_signature)
  ultimately show ?thesis
    using tok by blast
qed

theorem token_round_trip_witness:
  "find_one (\<lambda>d. u_id d = Oid ''a00000000000000000000001'') (users db0) = Some alice
   \<and> ObjectId ''a00000000000000000000001'' = Inr (Oid ''a00000000000000000000001'')
   \<and> map_sum id sub
        (jwt_decode
           (create_access_token ''dev-secret'' 1000
              \<lparr>sub = Some ''a00000000000000000000001'', exp = None\<rparr> None)
           ''dev-secret'' [JWT_ALG] 2000) = Inr (Some ''a00000000000000000000001'')
   \<and> get_current_user ''dev-secret'' 2000 db0
        (create_access_token ''dev-secret'' 1000
           \<lparr>sub = Some ''a00000000000000000000001'', exp = None\<rparr> None) = Inr alice
   \<and> get_current_user ''dev-secret'' 605800 db0
        (create_access_token ''dev-secret'' 1000
           \<lparr>sub = Some ''a00000000000000000000001'', exp = None\<rparr> None)
       = Inl (HTTPException 401 ''Token expired'')
   \<and> get_current_user ''dev-secret'' 2000 db0
        (Token JWT_ALG \<lparr>sub = Some ''c00000000000000000000003'', exp = Some 605800\<rparr>
           (Mac JWT_ALG ''dev-secret''
              \<lparr>sub = Some ''a00000000000000000000001'', exp = Some 605800\<rparr>))
       = Inl (HTTPException 401 ''Could not validate credentials'')"
proof -
  have stored: "find_one (\<lambda>d. u_id d = Oid ''a00000000000000000000001'') (users db0) = Some alice"
    by (simp add: find_one_def db0_def alice_def)
  have wf: "ObjectId ''a00000000000000000000001'' = Inr (Oid ''a00000000000000000000001'')"
    by (simp add: ObjectId_def is_hex_def lower_hex_def)
  have nz: "(None :: int option) \<noteq> Some 0"
    by simp
  note rt = token_round_trip
              [OF nz, where secret = "''dev-secret''" and ?t0.0 = 1000
                 and uid = "''a00000000000000000000001''" and st = db0 and u = alice
                 and i = "Oid ''a00000000000000000000001''"]
  have decoded: "map_sum id sub
                   (jwt_decode
                      (create_access_token ''dev-secret'' 1000
                         \<lparr>sub = Some ''a00000000000000000000001'', exp = None\<rparr> None)
                      ''dev-secret'' [JWT_ALG] 2000) = Inr (Some ''a00000000000000000000001'')"
    using rt [where t = 2000, THEN conjunct2, THEN conjunct1]
    by (simp add: ACCESS_TOKEN_EXPIRE_MINUTES_def)
  have early: "get_current_user ''dev-secret'' 2000 db0
                 (create_access_token ''dev-secret'' 1000
                    \<lparr>sub = Some ''a00000000000000000000001'', exp = None\<rparr> None) = Inr alice"
    using rt [where t = 2000, THEN conjunct2, THEN conjunct2, THEN conjunct1] stored wf
    by (simp add: ACCESS_TOKEN_EXPIRE_MINUTES_def)
  have late: "get_current_user ''dev-secret'' 605800 db0
                (create_access_token ''dev-secret'' 1000
                   \<lparr>sub = Some ''a00000000000000000000001'', exp = None\<rparr> None)
              = Inl (HTTPException 401 ''Token expired'')"
    using rt [where t = 605800, THEN conjunct2, THEN conjunct2, THEN conjunct2, THEN conjunct1]
    by (simp add: ACCESS_TOKEN_EXPIRE_MINUTES_def)
  have forged: "get_current_user ''dev-secret'' 2000 db0
                (Token JWT_ALG \<lparr>sub = Some ''c00000000000000000000003'', exp = Some 605800\<rparr>
                   (Mac JWT_ALG ''dev-secret''
                      \<lparr>sub = Some ''a00000000000000000000001'', exp = Some 605800\<rparr>))
              = Inl (HTTPException 401 ''Could not validate credentials'')"
    using rt [where t = 2000, THEN conjunct2, THEN conjunct2, THEN conjunct2, THEN conjunct2,
                THEN conjunct1, rule_format, of JWT_ALG
                "\<lparr>sub = Some ''c00000000000000000000003'', exp = Some 605800\<rparr>"]
    by (simp add: ACCESS_TOKEN_EXPIRE_MINUTES_def)
  show ?thesis
    using stored wf decoded early late forged by simp
qed

section \<open>The schema endpoint\<close>

text \<open>
  C10. \<^verbatim>\<open>main.py\<close> registers \<^verbatim>\<open>GET /schema\<close> with no authentication; the route is not in
  the route table the specification documents; and its handler, which takes nothing from
  the request, returns the whole source text of the schemas module under the key
  \<^verbatim>\<open>schemas\<close>.
\<close>

theorem get_schema_route:
  "(GET, ''/schema'', NoAuth) \<in> set routes
   \<and> (GET, ''/schema'') \<notin> set documented_routes
   \<and> (GET, ''/schema'', Bearer) \<notin> set routes
   \<and> get_schema schemas_source = [(''schemas'', schemas_source)]"
  by (simp add: routes_def documented_routes_def get_schema_def)

end
